theory Spec2Isabelle
  imports Complex_Main "HOL-Library.Sublist" "HOL-Library.AList" "HOL-Library.Char_ord"
    "HOL-Library.List_Lexorder"
begin

section \<open>Strings\<close>

text \<open>
  Python strings are sequences of code points. They are modelled as \<^typ>\<open>string\<close>, each
  \<^typ>\<open>char\<close> standing for one code point below 256, so that \<open>len\<close> is \<^const>\<open>length\<close>.
  The character tables below are those of Python 3 on this range.
\<close>

definition newline :: char where
  "newline = CHR 0x0A"

definition dquote :: char where
  "dquote = CHR 0x22"

definition squote :: char where
  "squote = CHR 0x27"

text \<open>The ranges \<open>[a-zA-Z]\<close> and \<open>[0-9]\<close> of a character class.\<close>

definition ascii_letter :: "char \<Rightarrow> bool" where
  "ascii_letter c \<longleftrightarrow> (CHR ''a'' \<le> c \<and> c \<le> CHR ''z'') \<or> (CHR ''A'' \<le> c \<and> c \<le> CHR ''Z'')"

definition ascii_digit :: "char \<Rightarrow> bool" where
  "ascii_digit c \<longleftrightarrow> CHR ''0'' \<le> c \<and> c \<le> CHR ''9''"

definition ascii_alnum :: "char \<Rightarrow> bool" where
  "ascii_alnum c \<longleftrightarrow> ascii_letter c \<or> ascii_digit c"

text \<open>Membership in an explicit list of characters.\<close>

definition one_of :: "string \<Rightarrow> char \<Rightarrow> bool" where
  "one_of cs c \<longleftrightarrow> c \<in> set cs"

text \<open>\<open>str.isspace\<close>, which is also the class \<open>\s\<close> of the \<open>re\<close> module.\<close>

definition is_space :: "char \<Rightarrow> bool" where
  "is_space c \<longleftrightarrow>
     (let n = (of_char c :: nat)
      in (9 \<le> n \<and> n \<le> 13) \<or> (28 \<le> n \<and> n \<le> 32) \<or> n = 133 \<or> n = 160)"

text \<open>The class \<open>\w\<close>, which decides the word boundaries \<open>\b\<close>.\<close>

definition word_char :: "char \<Rightarrow> bool" where
  "word_char c \<longleftrightarrow>
     (let n = (of_char c :: nat)
      in (48 \<le> n \<and> n \<le> 57) \<or> (65 \<le> n \<and> n \<le> 90) \<or> n = 95 \<or> (97 \<le> n \<and> n \<le> 122)
         \<or> n \<in> {170, 178, 179, 181, 185, 186, 188, 189, 190}
         \<or> (192 \<le> n \<and> n \<le> 255 \<and> n \<noteq> 215 \<and> n \<noteq> 247))"

text \<open>\<open>str.lower\<close>.\<close>

definition lower_char :: "char \<Rightarrow> char" where
  "lower_char c =
     (let n = (of_char c :: nat)
      in if (65 \<le> n \<and> n \<le> 90) \<or> (192 \<le> n \<and> n \<le> 222 \<and> n \<noteq> 215)
         then char_of (n + 32) else c)"

definition lower :: "string \<Rightarrow> string" where
  "lower s = map lower_char s"

text \<open>\<open>s.strip()\<close> and \<open>s.strip(chars)\<close>.\<close>

definition strip :: "string \<Rightarrow> string" where
  "strip s = rev (dropWhile is_space (rev (dropWhile is_space s)))"

definition strip_chars :: "string \<Rightarrow> string \<Rightarrow> string" where
  "strip_chars cs s =
     rev (dropWhile (\<lambda>c. c \<in> set cs) (rev (dropWhile (\<lambda>c. c \<in> set cs) s)))"

text \<open>\<open>s.split()\<close>: the maximal runs of characters that are not white space.\<close>

fun split_ws :: "string \<Rightarrow> string list" where
  "split_ws [] = []"
| "split_ws (c # cs) =
     (if is_space c then split_ws cs
      else (case cs of
              [] \<Rightarrow> [[c]]
            | d # ds \<Rightarrow>
                if is_space d then [c] # split_ws cs
                else (case split_ws cs of [] \<Rightarrow> [[c]] | w # ws \<Rightarrow> (c # w) # ws)))"

text \<open>\<open>s.split(sep)\<close> for a separator of one character.\<close>

fun py_split :: "char \<Rightarrow> string \<Rightarrow> string list" where
  "py_split sep [] = [[]]"
| "py_split sep (c # cs) =
     (if c = sep then [] # py_split sep cs
      else (case py_split sep cs of [] \<Rightarrow> [[c]] | w # ws \<Rightarrow> (c # w) # ws))"

text \<open>\<open>sep.join(words)\<close> and the slice \<open>xs[i:j]\<close> for \<open>0 \<le> i\<close>.\<close>

fun join :: "string \<Rightarrow> string list \<Rightarrow> string" where
  "join sep [] = []"
| "join sep [w] = w"
| "join sep (w # ws) = w @ sep @ join sep ws"

definition slice :: "nat \<Rightarrow> nat \<Rightarrow> 'a list \<Rightarrow> 'a list" where
  "slice i j xs = take (j - i) (drop i xs)"

section \<open>Python values\<close>

text \<open>
  A contact is a Python \<open>dict\<close> from field names to values; the values that occur are
  \<open>None\<close>, strings and numbers. A dictionary is an association list in insertion order.
  Numbers are real numbers: only their order and the sums of \<open>_calculate_validation_score\<close>
  are used.
\<close>

datatype pyval = PNone | PStr string | PNum real

type_synonym pydict = "(string \<times> pyval) list"

text \<open>\<open>d.get(k, dflt)\<close>\<close>

definition dict_get :: "pydict \<Rightarrow> string \<Rightarrow> pyval \<Rightarrow> pyval" where
  "dict_get d k dflt = (case map_of d k of None \<Rightarrow> dflt | Some v \<Rightarrow> v)"

fun truthy :: "pyval \<Rightarrow> bool" where
  "truthy PNone = False"
| "truthy (PStr s) = (s \<noteq> [])"
| "truthy (PNum x) = (x \<noteq> 0)"





section \<open>Regular expressions (the \<open>re\<close> module)\<close>

text \<open>
  The patterns of the source are built from character classes, sequence, alternation,
  greedy optional parts, greedy repetition of a character class (\<open>c{lo,hi}\<close>, \<open>c+\<close>,
  \<open>c*\<close>), greedy repetition of a group (\<open>(?:r)+\<close>) and the anchors \<open>^\<close>, \<open>$\<close> and \<open>\b\<close>.
  A flag \<open>re.IGNORECASE\<close> is written into the classes of the pattern.
\<close>

datatype regex =
    Eps
  | Cls "char \<Rightarrow> bool"
  | Seq regex regex
  | Alt regex regex
  | Opt regex
  | Rep "char \<Rightarrow> bool" nat "nat option"
  | Plus regex
  | Bol
  | Eol
  | WordB

text \<open>
  A position in the subject string: the text before it, reversed, and the text after it.
\<close>

type_synonym mstate = "string \<times> string"

definition at_word_boundary :: "string \<Rightarrow> string \<Rightarrow> bool" where
  "at_word_boundary b a \<longleftrightarrow>
     (case b of [] \<Rightarrow> False | c # _ \<Rightarrow> word_char c)
       \<noteq> (case a of [] \<Rightarrow> False | c # _ \<Rightarrow> word_char c)"

text \<open>
  The backtracking matcher: \<open>bt r st\<close> lists the positions at which a match of \<open>r\<close> that
  starts at \<open>st\<close> can end, in the order in which Python's engine tries them; the first one
  is the match that Python reports. Without \<open>re.MULTILINE\<close>, \<open>^\<close> matches at the start
  of the string only, and \<open>$\<close> at its end or before a newline that ends it. An iteration
  of \<open>(?:r)+\<close> that consumes nothing is not repeated.
\<close>

fun bt :: "regex \<Rightarrow> mstate \<Rightarrow> mstate list"
and bt_plus :: "regex \<Rightarrow> nat \<Rightarrow> mstate \<Rightarrow> mstate list" where
  "bt Eps st = [st]"
| "bt (Cls p) (b, a) = (case a of [] \<Rightarrow> [] | c # a' \<Rightarrow> if p c then [(c # b, a')] else [])"
| "bt (Seq r1 r2) st = concat (map (bt r2) (bt r1 st))"
| "bt (Alt r1 r2) st = bt r1 st @ bt r2 st"
| "bt (Opt r) st = bt r st @ [st]"
| "bt (Rep p lo hi) (b, a) =
     (let k = length (takeWhile p a);
          m = (case hi of None \<Rightarrow> k | Some h \<Rightarrow> min h k)
      in map (\<lambda>n. (rev (take n a) @ b, drop n a)) (rev [lo ..< Suc m]))"
| "bt (Plus r) st = bt_plus r (Suc (length (snd st))) st"
| "bt Bol (b, a) = (if b = [] then [(b, a)] else [])"
| "bt Eol (b, a) = (if a = [] \<or> a = [newline] then [(b, a)] else [])"
| "bt WordB (b, a) = (if at_word_boundary b a then [(b, a)] else [])"
| "bt_plus r 0 st = []"
| "bt_plus r (Suc k) st =
     concat (map (\<lambda>m. (if length (snd m) < length (snd st) then bt_plus r k m else []) @ [m])
               (bt r st))"

text \<open>Sequences, alternatives, single characters and literals.\<close>

definition seq :: "regex list \<Rightarrow> regex" where
  "seq rs = foldr Seq rs Eps"

definition alts :: "regex list \<Rightarrow> regex" where
  "alts rs = (case rs of [] \<Rightarrow> Eps | r # rs' \<Rightarrow> foldl Alt r rs')"

definition chr :: "char \<Rightarrow> regex" where
  "chr c = Cls (\<lambda>x. x = c)"

definition lit :: "string \<Rightarrow> regex" where
  "lit s = foldr (\<lambda>c r. Seq (Cls (\<lambda>x. x = c)) r) s Eps"

definition lit_i :: "string \<Rightarrow> regex" where
  "lit_i s = seq (map (\<lambda>c. Cls (\<lambda>x. lower_char x = lower_char c)) s)"

text \<open>\<open>re.match(r, s)\<close> as a truth value.\<close>

definition re_match :: "regex \<Rightarrow> string \<Rightarrow> bool" where
  "re_match r s \<longleftrightarrow> bt r ([], s) \<noteq> []"

text \<open>
  \<open>re.search(r, s)\<close>: the first position, from the left, at which \<open>r\<close> matches, with the
  end of the match.
\<close>

fun search_from :: "regex \<Rightarrow> string \<Rightarrow> string \<Rightarrow> (mstate \<times> mstate) option" where
  "search_from r b [] = (case bt r (b, []) of [] \<Rightarrow> None | m # _ \<Rightarrow> Some ((b, []), m))"
| "search_from r b (c # a) =
     (case bt r (b, c # a) of
        [] \<Rightarrow> search_from r (c # b) a
      | m # _ \<Rightarrow> Some ((b, c # a), m))"

definition re_search :: "regex \<Rightarrow> string \<Rightarrow> (mstate \<times> mstate) option" where
  "re_search r s = search_from r [] s"

definition re_found :: "regex \<Rightarrow> string \<Rightarrow> bool" where
  "re_found r s \<longleftrightarrow> re_search r s \<noteq> None"

text \<open>
  A pattern whose groups are read is given as the list of its consecutive parts; a match
  reports the text consumed by each part.
\<close>

definition consumed :: "mstate \<Rightarrow> mstate \<Rightarrow> string" where
  "consumed st en = take (length (snd st) - length (snd en)) (snd st)"

fun bt_segs :: "regex list \<Rightarrow> mstate \<Rightarrow> (string list \<times> mstate) list" where
  "bt_segs [] st = [([], st)]"
| "bt_segs (r # rs) st =
     concat (map (\<lambda>m. map (\<lambda>(ts, en). (consumed st m # ts, en)) (bt_segs rs m)) (bt r st))"

type_synonym rmatch = "mstate \<times> string list \<times> mstate"

fun search_segs_from :: "regex list \<Rightarrow> string \<Rightarrow> string \<Rightarrow> rmatch option" where
  "search_segs_from segs b [] =
     (case bt_segs segs (b, []) of [] \<Rightarrow> None | (ts, en) # _ \<Rightarrow> Some ((b, []), ts, en))"
| "search_segs_from segs b (c # a) =
     (case bt_segs segs (b, c # a) of
        [] \<Rightarrow> search_segs_from segs (c # b) a
      | (ts, en) # _ \<Rightarrow> Some ((b, c # a), ts, en))"

text \<open>
  \<open>re.finditer\<close>: the successive matches, each search starting where the previous match
  ended, or one character further after an empty match. The tests against \<open>length a\<close>
  always succeed; they make the recursion well-founded.
\<close>

function finditer_from :: "regex list \<Rightarrow> string \<Rightarrow> string \<Rightarrow> rmatch list" where
  "finditer_from segs b a =
     (case search_segs_from segs b a of
        None \<Rightarrow> []
      | Some (st, ts, (b', a')) \<Rightarrow>
          (st, ts, (b', a')) #
            (if length a' < length (snd st)
             then (if length a' < length a then finditer_from segs b' a' else [])
             else (case a' of
                     [] \<Rightarrow> []
                   | c # a'' \<Rightarrow>
                       if length a'' < length a then finditer_from segs (c # b') a'' else [])))"
  by pat_completeness auto
termination
  by (relation "measure (\<lambda>(segs, b, a). length a)") auto

declare finditer_from.simps [simp del]

definition re_finditer :: "regex list \<Rightarrow> string \<Rightarrow> rmatch list" where
  "re_finditer segs s = finditer_from segs [] s"

text \<open>\<open>m.group()\<close>, the texts of the parts, \<open>m.start()\<close> and \<open>m.end()\<close>.\<close>

fun m_group :: "rmatch \<Rightarrow> string" where
  "m_group (st, ts, en) = concat ts"

fun m_groups :: "rmatch \<Rightarrow> string list" where
  "m_groups (st, ts, en) = ts"

fun m_start :: "rmatch \<Rightarrow> nat" where
  "m_start (st, ts, en) = length (fst st)"

fun m_end :: "rmatch \<Rightarrow> nat" where
  "m_end (st, ts, en) = length (fst en)"

section \<open>The email extraction engine (extractors/email\_extractor.py)\<close>

subsection \<open>The basic validity gate\<close>

definition dot :: "char \<Rightarrow> bool" where "dot c \<longleftrightarrow> c = CHR ''.''"

text \<open>
  The list \<open>invalid_patterns\<close> of \<open>_is_valid_email_format\<close>: \<open>\.{2,}\<close>, \<open>^\.|\.\<close>, \<open>@\.\<close>
  and \<open>\.@\<close>.
\<close>

definition basic_invalid_patterns :: "regex list" where
  "basic_invalid_patterns =
     [Rep dot 2 None,
      Alt (Seq Bol (Cls dot)) (Cls dot),
      Seq (Cls (\<lambda>c. c = CHR ''@'')) (Cls dot),
      Seq (Cls dot) (Cls (\<lambda>c. c = CHR ''@''))]"

text \<open>
  \<open>_is_valid_email_format\<close>. The unpacking \<open>local, domain = email.split('@')\<close> follows the
  test that there is exactly one \<open>@\<close>.
\<close>

definition is_valid_email_format :: "string \<Rightarrow> bool" where
  "is_valid_email_format email =
     (if email = [] \<or> length email < 5 then False
      else if count_list email CHR ''@'' \<noteq> 1 then False
      else (case py_split CHR ''@'' email of
              [local, domain] \<Rightarrow>
                if local = [] \<or> domain = [] then False
                else if length local > 64 \<or> length domain > 255 then False
                else if CHR ''.'' \<notin> set domain then False
                else if \<exists>pattern \<in> set basic_invalid_patterns. re_found pattern email then False
                else True
            | _ \<Rightarrow> False))"

subsection \<open>Strategies behind the basic gate\<close>

text \<open>The character classes of the patterns; \<open>[A-Z|a-z]\<close> contains the bar.\<close>

definition email_local :: "char \<Rightarrow> bool" where
  "email_local c \<longleftrightarrow> ascii_letter c \<or> ascii_digit c \<or> one_of ''._%+-'' c"

definition email_domain :: "char \<Rightarrow> bool" where
  "email_domain c \<longleftrightarrow> ascii_letter c \<or> ascii_digit c \<or> one_of ''.-'' c"

definition letter_or_bar :: "char \<Rightarrow> bool" where
  "letter_or_bar c \<longleftrightarrow> ascii_letter c \<or> c = CHR ''|''"

definition obfuscated_local :: "char \<Rightarrow> bool" where
  "obfuscated_local c \<longleftrightarrow> ascii_letter c \<or> ascii_digit c \<or> one_of ''._-'' c"

text \<open>\<open>[A-Za-z0-9._%+-]+@[A-Za-z0-9.-]+\.[A-Z|a-z]{2,}\<close>\<close>

definition email_core :: regex where
  "email_core =
     seq [Rep email_local 1 None, chr CHR ''@'', Rep email_domain 1 None, chr CHR ''.'',
          Rep letter_or_bar 2 None]"

text \<open>\<open>EmailPatterns.email_patterns\<close> (utils/patterns.py), compiled with \<open>re.IGNORECASE\<close>.\<close>

definition email_patterns :: "(string \<times> regex) list" where
  "email_patterns =
     [(''standard'', seq [WordB, email_core, WordB]),
      (''strict'',
         seq [WordB, Cls ascii_alnum,
              Opt (Seq (Rep (\<lambda>c. ascii_alnum c \<or> one_of ''._%-'' c) 0 None) (Cls ascii_alnum)),
              chr CHR ''@'', Cls ascii_alnum,
              Opt (Seq (Rep email_domain 0 None) (Cls ascii_alnum)),
              chr CHR ''.'', Rep ascii_letter 2 None, WordB]),
      (''with_context'',
         seq [Opt (alts [lit_i ''email'', lit_i ''e-mail'', lit_i ''contact'']),
              Rep is_space 0 None, Opt (chr CHR '':''), Rep is_space 0 None, email_core]),
      (''quoted'',
         seq [Cls (one_of [dquote, squote, CHR ''(''  ]), email_core,
              Cls (one_of [dquote, squote, CHR '')''  ])])]"

text \<open>\<open>_get_context\<close> with its default \<open>context_length\<close> of 100.\<close>

definition get_context :: "string \<Rightarrow> nat \<Rightarrow> nat \<Rightarrow> string" where
  "get_context text start end =
     (let start_context = start - 100;
          end_context = min (length text) (end + 100);
          context = strip (slice start_context end_context text)
      in join '' '' (split_ws context))"

text \<open>
  \<open>_extract_standard_emails\<close>. The HTML library is a collaborator: \<open>clean_html\<close> is
  \<open>TextProcessor.clean_html\<close>.
\<close>

definition extract_standard_emails :: "(string \<Rightarrow> string) \<Rightarrow> string \<Rightarrow> pydict list" where
  "extract_standard_emails clean_html content =
     (let text_content = clean_html content
      in concat (map (\<lambda>(pattern_name, pattern).
           concat (map (\<lambda>match.
               (let email = strip (lower (m_group match))
                in if is_valid_email_format email
                   then [[(''email'', PStr email), (''method'', PStr ''standard_regex''),
                          (''pattern'', PStr pattern_name), (''confidence'', PNum 0.9),
                          (''context'', PStr (get_context text_content (m_start match)
                                                (m_end match)))]]
                   else []))
             (re_finditer [pattern] text_content)))
         email_patterns))"

text \<open>
  \<open>_extract_mailto_links\<close>. \<open>mailto_links\<close> lists the \<open>href\<close> and the text of every anchor
  that \<open>soup.find_all('a', href=True)\<close> returns; \<open>unquote\<close> is \<open>urllib.parse.unquote\<close>.
\<close>

definition extract_mailto_links ::
  "(string \<Rightarrow> string) \<Rightarrow> (string \<times> string) list \<Rightarrow> string \<Rightarrow> pydict list" where
  "extract_mailto_links unquote mailto_links source_url =
     concat (map (\<lambda>(href, link_text).
        if prefix ''mailto:'' href
        then (let email_part = drop 7 href;
                  email_part = (if CHR ''?'' \<in> set email_part
                                then (case py_split CHR ''?'' email_part of
                                        [] \<Rightarrow> [] | w # _ \<Rightarrow> w)
                                else email_part);
                  email_addresses = map strip (py_split CHR '','' email_part)
              in concat (map (\<lambda>e.
                   (let email = lower (unquote e)
                    in if is_valid_email_format email
                       then [[(''email'', PStr email), (''method'', PStr ''mailto_link''),
                              (''confidence'', PNum 0.95), (''context'', PStr link_text),
                              (''link_text'', PStr link_text),
                              (''source_url'', PStr source_url)]]
                       else []))
                 email_addresses))
        else [])
      mailto_links)"

text \<open>
  \<open>_extract_css_hidden_emails\<close>. \<open>hidden_texts\<close> lists the texts of the elements that the
  hidden selectors select, in the order of the two loops.
\<close>

definition extract_css_hidden_emails ::
  "(string \<Rightarrow> string) \<Rightarrow> string list \<Rightarrow> pydict list" where
  "extract_css_hidden_emails clean_html hidden_texts =
     concat (map (\<lambda>text.
        if text \<noteq> [] \<and> CHR ''@'' \<in> set text
        then map (\<lambda>email_data.
               AList.update ''confidence'' (PNum 0.7)
                 (AList.update ''method'' (PStr ''css_hidden'') email_data))
             (extract_standard_emails clean_html text)
        else [])
      hidden_texts)"

text \<open>
  \<open>_extract_obfuscated_emails\<close>: its four patterns, searched with \<open>re.IGNORECASE\<close>, each in
  five parts of which the first, third and fifth are the groups.
\<close>

definition ws_around :: "regex \<Rightarrow> regex" where
  "ws_around r = seq [Rep is_space 0 None, r, Rep is_space 0 None]"

definition obfuscation_patterns :: "regex list list" where
  "obfuscation_patterns =
     [[Rep obfuscated_local 1 None, ws_around (chr CHR ''@''), Rep email_domain 1 None,
       ws_around (chr CHR ''.''), Rep ascii_letter 2 None],
      [Rep obfuscated_local 1 None, ws_around (lit_i ''[at]''), Rep email_domain 1 None,
       ws_around (lit_i ''[dot]''), Rep ascii_letter 2 None],
      [Rep obfuscated_local 1 None, ws_around (lit_i ''(at)''), Rep email_domain 1 None,
       ws_around (lit_i ''(dot)''), Rep ascii_letter 2 None],
      [Rep obfuscated_local 1 None, lit_i ''&#64;'', Rep email_domain 1 None,
       lit_i ''&#46;'', Rep ascii_letter 2 None]]"

definition deobfuscate :: "string list \<Rightarrow> string" where
  "deobfuscate groups =
     (case groups of
        [g1, _, g2, _, g3] \<Rightarrow> g1 @ ''@'' @ g2 @ ''.'' @ g3
      | _ \<Rightarrow> [])"

definition extract_obfuscated_emails ::
  "(string \<Rightarrow> string) \<Rightarrow> string \<Rightarrow> string list \<Rightarrow> pydict list" where
  "extract_obfuscated_emails clean_html content hidden_texts =
     (let text_content = clean_html content
      in concat (map (\<lambda>pattern.
           concat (map (\<lambda>match.
               (let email = lower (deobfuscate (m_groups match))
                in if is_valid_email_format email
                   then [[(''email'', PStr email), (''method'', PStr ''deobfuscation''),
                          (''confidence'', PNum 0.85),
                          (''context'', PStr (get_context text_content (m_start match)
                                                (m_end match))),
                          (''original_text'', PStr (m_group match))]]
                   else []))
             (re_finditer pattern text_content)))
         obfuscation_patterns)
         @ extract_css_hidden_emails clean_html hidden_texts)"

text \<open>
  \<open>_extract_js_emails\<close>. \<open>scripts\<close> lists \<open>script.string\<close> for every script element; the
  first two patterns have two groups, the last two have one.
\<close>

definition js_concat_pattern :: "char \<Rightarrow> regex list" where
  "js_concat_pattern q =
     [chr q, Rep (\<lambda>c. c \<noteq> q) 1 None,
      seq [chr q, Rep is_space 0 None, chr CHR ''+'', Rep is_space 0 None,
           chr q, chr CHR ''@'', chr q, Rep is_space 0 None, chr CHR ''+'',
           Rep is_space 0 None, chr q],
      Rep (\<lambda>c. c \<noteq> q) 1 None, chr q]"

definition js_assign_pattern :: "string \<Rightarrow> regex list" where
  "js_assign_pattern name =
     [seq [lit_i name, Rep is_space 0 None, Cls (one_of '':=''), Rep is_space 0 None,
           Cls (one_of [dquote, squote])],
      seq [Rep (\<lambda>c. \<not> one_of [dquote, squote] c) 1 None, chr CHR ''@'',
           Rep (\<lambda>c. \<not> one_of [dquote, squote] c) 1 None],
      Cls (one_of [dquote, squote])]"

definition js_patterns :: "regex list list" where
  "js_patterns =
     [js_concat_pattern squote, js_concat_pattern dquote,
      js_assign_pattern ''email'', js_assign_pattern ''mail'']"

definition js_email :: "string list \<Rightarrow> string" where
  "js_email groups =
     (case groups of
        [_, g1, _, g2, _] \<Rightarrow> lower (g1 @ ''@'' @ g2)
      | [_, g1, _] \<Rightarrow> lower g1
      | _ \<Rightarrow> [])"

definition extract_js_emails :: "string list \<Rightarrow> pydict list" where
  "extract_js_emails scripts =
     concat (map (\<lambda>js_content.
        concat (map (\<lambda>pattern.
           concat (map (\<lambda>match.
               (let email = js_email (m_groups match)
                in if is_valid_email_format email
                   then [[(''email'', PStr email), (''method'', PStr ''javascript''),
                          (''confidence'', PNum 0.75),
                          (''context'', PStr (take 100 (m_group match)))]]
                   else []))
             (re_finditer pattern js_content)))
         js_patterns))
      (filter (\<lambda>js. js \<noteq> []) scripts))"

subsection \<open>The enhanced validity gate\<close>

text \<open>
  The pattern \<open>^[a-zA-Z0-9._%+-]+@[a-zA-Z0-9.-]+\.[a-zA-Z]{2,}$\<close> of
  \<open>_is_valid_email_format_enhanced\<close>. The extractor compiles it with \<open>re.IGNORECASE\<close>, the
  crawler without; on the classes of this pattern the flag changes nothing for code points
  below 256.
\<close>

definition enhanced_email_pattern :: regex where
  "enhanced_email_pattern =
     seq [Bol, Rep email_local 1 None, chr CHR ''@'', Rep email_domain 1 None, chr CHR ''.'',
          Rep ascii_letter 2 None, Eol]"

text \<open>
  The list \<open>invalid_patterns\<close> of the extractor's gate: \<open>\.{2,}\<close>, \<open>^\.|\.$\<close>, \<open>@\.\<close>, \<open>\.@\<close>,
  \<open>^-|^_\<close> and \<open>-$|_$\<close>.
\<close>

definition enhanced_invalid_patterns :: "regex list" where
  "enhanced_invalid_patterns =
     [Rep dot 2 None,
      Alt (Seq Bol (Cls dot)) (Seq (Cls dot) Eol),
      Seq (chr CHR ''@'') (Cls dot),
      Seq (Cls dot) (chr CHR ''@''),
      Alt (Seq Bol (chr CHR ''-'')) (Seq Bol (chr CHR ''_'')),
      Alt (Seq (chr CHR ''-'') Eol) (Seq (chr CHR ''_'') Eol)]"

text \<open>\<open>EmailExtractor._is_valid_email_format_enhanced\<close> (extractors/email\_extractor.py).\<close>

definition is_valid_email_format_enhanced :: "string \<Rightarrow> bool" where
  "is_valid_email_format_enhanced email =
     (if email = [] \<or> length email < 5 \<or> length email > 254 then False
      else if count_list email CHR ''@'' \<noteq> 1 then False
      else (case py_split CHR ''@'' email of
              [local, domain] \<Rightarrow>
                if local = [] \<or> domain = [] then False
                else if length local > 64 \<or> length domain > 255 then False
                else if CHR ''.'' \<notin> set domain then False
                else if \<not> re_match enhanced_email_pattern email then False
                else if \<exists>pattern \<in> set enhanced_invalid_patterns. re_found pattern email
                  then False
                else (let domain_parts = py_split CHR ''.'' domain
                      in if length domain_parts < 2 then False
                         else if length (last domain_parts) < 2 then False
                         else True)
            | _ \<Rightarrow> False))"

text \<open>
  \<open>WebsiteCrawler._is_valid_email_format_enhanced\<close> (crawler/website\_crawler.py): the method
  of the same name in the crawler, which ends with the pattern match.
\<close>

definition crawler_is_valid_email_format_enhanced :: "string \<Rightarrow> bool" where
  "crawler_is_valid_email_format_enhanced email =
     (if email = [] \<or> length email < 5 \<or> length email > 254 then False
      else if count_list email CHR ''@'' \<noteq> 1 then False
      else (case py_split CHR ''@'' email of
              [local, domain] \<Rightarrow>
                if local = [] \<or> domain = [] \<or> CHR ''.'' \<notin> set domain then False
                else re_match enhanced_email_pattern email
            | _ \<Rightarrow> False))"

subsection \<open>The gate as a list of conditions\<close>

text \<open>
  The parts of an address that the conditions speak about: the text before the first \<open>@\<close>,
  the text after it, the text after the last dot, and the string without one final newline.
\<close>

definition local_part :: "string \<Rightarrow> string" where
  "local_part e = takeWhile (\<lambda>c. c \<noteq> CHR ''@'') e"

definition domain_part :: "string \<Rightarrow> string" where
  "domain_part e = drop 1 (dropWhile (\<lambda>c. c \<noteq> CHR ''@'') e)"

definition final_label :: "string \<Rightarrow> string" where
  "final_label e = rev (takeWhile (\<lambda>c. c \<noteq> CHR ''.'') (rev e))"

definition chomp :: "string \<Rightarrow> string" where
  "chomp e = (if e \<noteq> [] \<and> last e = newline then butlast e else e)"

text \<open>
  The conditions of the specification, in its words: length between 5 and 254, exactly one
  \<open>@\<close>, both parts non-empty, local part at most 64 and domain at most 255 characters, a dot
  in the domain, a final label of at least two letters, and none of the forbidden dot,
  hyphen and underscore positions.
\<close>

definition claimed_gate :: "string \<Rightarrow> bool" where
  "claimed_gate e \<longleftrightarrow>
     5 \<le> length e \<and> length e \<le> 254
     \<and> count_list e CHR ''@'' = 1
     \<and> local_part e \<noteq> [] \<and> domain_part e \<noteq> []
     \<and> length (local_part e) \<le> 64 \<and> length (domain_part e) \<le> 255
     \<and> CHR ''.'' \<in> set (domain_part e)
     \<and> 2 \<le> length (final_label e) \<and> list_all ascii_letter (final_label e)
     \<and> \<not> sublist ''..'' e
     \<and> \<not> prefix ''.'' e \<and> \<not> suffix ''.'' e
     \<and> \<not> sublist ''.@'' e \<and> \<not> sublist ''@.'' e
     \<and> \<not> prefix ''-'' e \<and> \<not> prefix ''_'' e \<and> \<not> suffix ''-'' e \<and> \<not> suffix ''_'' e"

text \<open>
  The same conditions completed by what the pattern adds: the characters allowed in the
  local part and in the domain, and the final newline that \<open>$\<close> lets pass.
\<close>

definition amended_gate :: "string \<Rightarrow> bool" where
  "amended_gate e \<longleftrightarrow>
     5 \<le> length e \<and> length e \<le> 254
     \<and> count_list e CHR ''@'' = 1
     \<and> local_part e \<noteq> [] \<and> domain_part e \<noteq> []
     \<and> length (local_part e) \<le> 64 \<and> length (domain_part e) \<le> 255
     \<and> CHR ''.'' \<in> set (domain_part e)
     \<and> 2 \<le> length (final_label (chomp e)) \<and> list_all ascii_letter (final_label (chomp e))
     \<and> \<not> sublist ''..'' e
     \<and> \<not> prefix ''.'' e \<and> \<not> suffix ''.'' e
     \<and> \<not> sublist ''.@'' e \<and> \<not> sublist ''@.'' e
     \<and> \<not> prefix ''-'' e \<and> \<not> prefix ''_'' e \<and> \<not> suffix ''-'' e \<and> \<not> suffix ''_'' e
     \<and> list_all email_local (local_part e)
     \<and> list_all email_domain (domain_part (chomp e))"

text \<open>
  The conditions that the crawler's method checks: the length, the single \<open>@\<close>, the
  characters of both parts, and a final label of at least two letters after a dot that is
  not the first character of the domain.
\<close>

definition crawler_gate :: "string \<Rightarrow> bool" where
  "crawler_gate e \<longleftrightarrow>
     5 \<le> length e \<and> length e \<le> 254
     \<and> count_list e CHR ''@'' = 1
     \<and> local_part e \<noteq> []
     \<and> CHR ''.'' \<in> set (domain_part e)
     \<and> 2 \<le> length (final_label (chomp e)) \<and> list_all ascii_letter (final_label (chomp e))
     \<and> length (final_label (chomp e)) + 2 \<le> length (domain_part (chomp e))
     \<and> list_all email_local (local_part e)
     \<and> list_all email_domain (domain_part (chomp e))"

text \<open>
  An address of the shape \<open>l@d.t\<close> with an optional final newline \<open>r\<close>, as the pattern
  matches it.
\<close>

definition address_shape :: "string \<Rightarrow> string \<Rightarrow> string \<Rightarrow> string \<Rightarrow> string \<Rightarrow> bool" where
  "address_shape e l d t r \<longleftrightarrow>
     e = l @ CHR ''@'' # d @ CHR ''.'' # t @ r
     \<and> l \<noteq> [] \<and> list_all email_local l \<and> d \<noteq> [] \<and> list_all email_domain d
     \<and> 2 \<le> length t \<and> list_all ascii_letter t \<and> (r = [] \<or> r = [newline])"

section \<open>The crawl orchestrator (crawler/website\_crawler.py)\<close>

subsection \<open>Configuration, collaborators and crawl state\<close>

text \<open>The fields of \<open>Config\<close> that the orchestrator reads.\<close>

record config =
  max_depth :: int
  max_pages :: int
  user_agent :: string
  allowed_domains :: "string list option"
  excluded_domains :: "string list option"
  excluded_extensions :: "string list"

text \<open>The components of \<open>urlparse(url)\<close> that the admission check reads.\<close>

record parsed_url =
  netloc :: string
  path :: string
  query :: string

text \<open>
  A loaded \<open>RobotFileParser\<close>: \<open>rp.can_fetch(user_agent, url)\<close>, where \<open>None\<close> stands for
  a raised exception.
\<close>

type_synonym robots = "string \<Rightarrow> string \<Rightarrow> bool option"

text \<open>
  The collaborators of the orchestrator. A result \<open>None\<close> of \<open>urlparse\<close>, \<open>load_robots\<close> and
  \<open>py_int\<close> stands for a raised exception; \<open>crawl_single_page\<close> returns a \<open>CrawlResult\<close> or
  \<open>None\<close>; \<open>fetch_page_content\<close> returns the page text or \<open>None\<close>. \<open>set_order\<close> is the order in
  which \<open>list(self.queued_urls)\<close> enumerates the set.
\<close>

record 'r env =
  urlparse :: "string \<Rightarrow> parsed_url option"
  parse_qs :: "string \<Rightarrow> (string \<times> string list) list"
  py_int :: "string \<Rightarrow> int option"
  load_robots :: "string \<Rightarrow> robots option"
  crawl_single_page :: "string \<Rightarrow> int \<Rightarrow> 'r option"
  fetch_page_content :: "string \<Rightarrow> string option"
  extract_links :: "string \<Rightarrow> string \<Rightarrow> string list"
  set_order :: "string list \<Rightarrow> string list"

text \<open>
  Every page download the orchestrator issues is recorded: the call
  \<open>_crawl_single_page(url, depth)\<close> and the second download made for link discovery.
\<close>

datatype fetch = Crawl string int | Links string int

text \<open>
  The crawl state of \<open>WebsiteCrawler\<close>. The Python sets \<open>visited_urls\<close> and \<open>queued_urls\<close> are
  lists without duplicates, extended by \<open>set_add\<close>; \<open>robots_cache\<close> is a dictionary.
  \<open>failed_urls\<close> is written only inside the fetch collaborators and never read by the
  control flow, and is left out. \<open>fetch_log\<close> lists the downloads issued so far.
\<close>

record 'r crawler =
  visited_urls :: "string list"
  queued_urls :: "string list"
  robots_cache :: "(string \<times> robots option) list"
  all_results :: "'r list"
  fetch_log :: "fetch list"

definition set_add :: "'a \<Rightarrow> 'a list \<Rightarrow> 'a list" where
  "set_add x xs = (if x \<in> set xs then xs else xs @ [x])"

definition set_update :: "'a list \<Rightarrow> 'a list \<Rightarrow> 'a list" where
  "set_update xs ys = fold set_add ys xs"

subsection \<open>Robots policy\<close>

text \<open>\<open>_get_robots_parser\<close>; \<open>None\<close> when \<open>urlparse\<close> raises.\<close>

definition get_robots_parser ::
  "'r env \<Rightarrow> (string \<times> robots option) list \<Rightarrow> string
     \<Rightarrow> (robots option \<times> (string \<times> robots option) list) option" where
  "get_robots_parser e cache base_url =
     (case urlparse e base_url of
        None \<Rightarrow> None
      | Some p \<Rightarrow>
          (case map_of cache (netloc p) of
             Some rp \<Rightarrow> Some (rp, cache)
           | None \<Rightarrow>
               (let rp = load_robots e base_url
                in Some (rp, AList.update (netloc p) rp cache))))"

text \<open>\<open>_can_fetch\<close>: every exception is caught and answered with \<open>True\<close>.\<close>

definition can_fetch ::
  "'r env \<Rightarrow> config \<Rightarrow> (string \<times> robots option) list \<Rightarrow> string
     \<Rightarrow> bool \<times> (string \<times> robots option) list" where
  "can_fetch e cfg cache url =
     (case get_robots_parser e cache url of
        None \<Rightarrow> (True, cache)
      | Some (None, cache') \<Rightarrow> (True, cache')
      | Some (Some rp, cache') \<Rightarrow>
          (case rp (user_agent cfg) url of
             None \<Rightarrow> (True, cache')
           | Some b \<Rightarrow> (b, cache')))"

subsection \<open>URL admission\<close>

text \<open>The pagination guard on the \<open>page\<close> query parameter: \<open>True\<close> when the URL is refused.\<close>

definition page_number_too_large :: "'r env \<Rightarrow> string \<Rightarrow> bool" where
  "page_number_too_large e q =
     (if q = [] then False
      else (case map_of (parse_qs e q) ''page'' of
              None \<Rightarrow> False
            | Some [] \<Rightarrow> False
            | Some (v # _) \<Rightarrow>
                (case py_int e v of None \<Rightarrow> False | Some n \<Rightarrow> n > 100)))"

text \<open>
  \<open>_should_crawl_url\<close>. The verdict comes with the robots cache, which \<open>_can_fetch\<close> may
  have extended. The enclosing \<open>except Exception: return False\<close> is the branch where
  \<open>urlparse\<close> raises.
\<close>

definition should_crawl_url ::
  "'r env \<Rightarrow> config \<Rightarrow> 'r crawler \<Rightarrow> string \<Rightarrow> string \<Rightarrow> int
     \<Rightarrow> bool \<times> (string \<times> robots option) list" where
  "should_crawl_url e cfg st url base_domain current_depth =
     (case urlparse e url of
        None \<Rightarrow> (False, robots_cache st)
      | Some parsed \<Rightarrow>
          if current_depth \<ge> max_depth cfg then (False, robots_cache st)
          else if url \<in> set (visited_urls st) \<or> url \<in> set (queued_urls st)
            then (False, robots_cache st)
          else if (case allowed_domains cfg of
                     None \<Rightarrow> False
                   | Some ds \<Rightarrow> ds \<noteq> [] \<and> netloc parsed \<notin> set ds)
            then (False, robots_cache st)
          else if (case excluded_domains cfg of
                     None \<Rightarrow> False
                   | Some ds \<Rightarrow> ds \<noteq> [] \<and> netloc parsed \<in> set ds)
            then (False, robots_cache st)
          else if netloc parsed \<noteq> base_domain then (False, robots_cache st)
          else if (\<exists>ext \<in> set (excluded_extensions cfg). suffix ext (lower (path parsed)))
            then (False, robots_cache st)
          else (case can_fetch e cfg (robots_cache st) url of
                  (False, cache') \<Rightarrow> (False, cache')
                | (True, cache') \<Rightarrow>
                    if page_number_too_large e (query parsed) then (False, cache')
                    else (True, cache')))"

subsection \<open>The wave loop of \<open>crawl_website\<close>\<close>

text \<open>
  \<open>for link in links: if self._should_crawl_url(link, base_domain, current_depth + 1):
  next_urls.add(link)\<close>
\<close>

fun add_links ::
  "'r env \<Rightarrow> config \<Rightarrow> string \<Rightarrow> int \<Rightarrow> string list \<Rightarrow> 'r crawler \<Rightarrow> string list
     \<Rightarrow> 'r crawler \<times> string list" where
  "add_links e cfg base_domain current_depth [] st next_urls = (st, next_urls)"
| "add_links e cfg base_domain current_depth (link # links) st next_urls =
     (case should_crawl_url e cfg st link base_domain (current_depth + 1) of
        (ok, cache') \<Rightarrow>
          add_links e cfg base_domain current_depth links (st\<lparr>robots_cache := cache'\<rparr>)
            (if ok then set_add link next_urls else next_urls))"

text \<open>The body of \<open>for url, result in zip(batch, batch_results)\<close>, up to the page-budget test.\<close>

definition process_result ::
  "'r env \<Rightarrow> config \<Rightarrow> string \<Rightarrow> int \<Rightarrow> string \<Rightarrow> 'r option \<Rightarrow> 'r crawler \<Rightarrow> string list
     \<Rightarrow> 'r crawler \<times> string list" where
  "process_result e cfg base_domain current_depth url result st next_urls =
     (let st1 = st\<lparr>visited_urls := set_add url (visited_urls st)\<rparr>
      in case result of
           None \<Rightarrow> (st1, next_urls)
         | Some r \<Rightarrow>
             (let st2 = st1\<lparr>all_results := all_results st1 @ [r]\<rparr>
              in if current_depth < max_depth cfg - 1
                 then (let st3 = st2\<lparr>fetch_log := fetch_log st2 @ [Links url current_depth]\<rparr>
                       in case fetch_page_content e url of
                            None \<Rightarrow> (st3, next_urls)
                          | Some page_content \<Rightarrow>
                              if page_content = [] then (st3, next_urls)
                              else add_links e cfg base_domain current_depth
                                     (extract_links e page_content url) st3 next_urls)
                 else (st2, next_urls)))"

text \<open>
  The loop over one batch's results, left by \<open>break\<close> as soon as
  \<open>len(self.visited_urls) >= self.config.max_pages\<close>.
\<close>

fun process_results ::
  "'r env \<Rightarrow> config \<Rightarrow> string \<Rightarrow> int \<Rightarrow> (string \<times> 'r option) list \<Rightarrow> 'r crawler
     \<Rightarrow> string list \<Rightarrow> 'r crawler \<times> string list" where
  "process_results e cfg base_domain current_depth [] st next_urls = (st, next_urls)"
| "process_results e cfg base_domain current_depth ((url, result) # rest) st next_urls =
     (case process_result e cfg base_domain current_depth url result st next_urls of
        (st', next_urls') \<Rightarrow>
          if int (length (visited_urls st')) \<ge> max_pages cfg then (st', next_urls')
          else process_results e cfg base_domain current_depth rest st' next_urls')"

text \<open>
  The loop over the batches of a wave: the pages of a batch are downloaded together
  (\<open>asyncio.gather\<close>), then their results are processed in list order. The second \<open>break\<close>
  tests the same condition after the inner loop.
\<close>

fun run_batches ::
  "'r env \<Rightarrow> config \<Rightarrow> string \<Rightarrow> int \<Rightarrow> string list list \<Rightarrow> 'r crawler \<Rightarrow> string list
     \<Rightarrow> 'r crawler \<times> string list" where
  "run_batches e cfg base_domain current_depth [] st next_urls = (st, next_urls)"
| "run_batches e cfg base_domain current_depth (batch # batches) st next_urls =
     (let batch_results = map (\<lambda>url. crawl_single_page e url current_depth) batch;
          st1 = st\<lparr>fetch_log := fetch_log st @ map (\<lambda>url. Crawl url current_depth) batch\<rparr>
      in case process_results e cfg base_domain current_depth (zip batch batch_results) st1
                next_urls of
           (st', next_urls') \<Rightarrow>
             if int (length (visited_urls st')) \<ge> max_pages cfg then (st', next_urls')
             else run_batches e cfg base_domain current_depth batches st' next_urls')"

text \<open>
  \<open>[current_urls[i:i + batch_size] for i in range(0, len(current_urls), batch_size)]\<close>, for
  a positive \<open>batch_size\<close>.
\<close>

function chunks :: "nat \<Rightarrow> 'a list \<Rightarrow> 'a list list" where
  "chunks n xs = (if n = 0 \<or> xs = [] then [] else take n xs # chunks n (drop n xs))"
  by pat_completeness auto
termination
  by (relation "measure (\<lambda>(n, xs). length xs)") auto

declare chunks.simps [simp del]

text \<open>
  The outcome of a crawl: the state it ends in, and whether it ended by an exception
  (\<open>range()\<close> refuses a step of zero; \<open>urlparse\<close> may refuse the start URL).
\<close>

datatype crawl_error = ValueError

datatype 'r outcome = Raised crawl_error "'r crawler" | Done "'r crawler"

fun final_state :: "'r outcome \<Rightarrow> 'r crawler" where
  "final_state (Raised err st) = st"
| "final_state (Done st) = st"

text \<open>The \<open>while\<close> loop of \<open>crawl_website\<close>; one iteration is one wave.\<close>

function crawl_loop ::
  "'r env \<Rightarrow> config \<Rightarrow> string \<Rightarrow> int \<Rightarrow> 'r crawler \<Rightarrow> 'r outcome" where
  "crawl_loop e cfg base_domain current_depth st =
     (if queued_urls st \<noteq> [] \<and> current_depth < max_depth cfg
           \<and> int (length (visited_urls st)) < max_pages cfg
      then (let current_urls = set_order e (queued_urls st);
                st1 = st\<lparr>queued_urls := []\<rparr>;
                remaining_pages = max_pages cfg - int (length (visited_urls st1))
            in if remaining_pages \<le> 0 then Done st1
               else (let current_urls' =
                           (if int (length current_urls) > remaining_pages
                            then take (nat remaining_pages) current_urls else current_urls);
                         batch_size = min 20 (length current_urls')
                     in if batch_size = 0 then Raised ValueError st1
                        else (case run_batches e cfg base_domain current_depth
                                     (chunks batch_size current_urls') st1 [] of
                                (st2, next_urls) \<Rightarrow>
                                  crawl_loop e cfg base_domain (current_depth + 1)
                                    (st2\<lparr>queued_urls :=
                                            set_update (queued_urls st2) next_urls\<rparr>))))
      else Done st)"
  by pat_completeness auto
termination
  by (relation "measure (\<lambda>(e, cfg, base_domain, current_depth, st).
                   nat (max_depth cfg - current_depth))") auto

declare crawl_loop.simps [simp del]

text \<open>\<open>crawl_website\<close>, up to the hand-over of the results to the post-processor.\<close>

definition crawl_website :: "'r env \<Rightarrow> config \<Rightarrow> 'r crawler \<Rightarrow> string \<Rightarrow> 'r outcome" where
  "crawl_website e cfg st start_url =
     (case urlparse e start_url of
        None \<Rightarrow> Raised ValueError st
      | Some p \<Rightarrow>
          crawl_loop e cfg (netloc p) 0
            (st\<lparr>queued_urls := set_add start_url (queued_urls st)\<rparr>))"



subsection \<open>Sample sites\<close>

text \<open>
  A site on the host \<open>a.org\<close>: URLs are parsed by cutting the scheme and splitting at the
  first slash; there is no robots.txt.
\<close>

definition sample_urlparse :: "string \<Rightarrow> parsed_url option" where
  "sample_urlparse url =
     (if url = ''http://[::1'' then None
      else (let rest = drop 7 url
            in Some \<lparr>netloc = takeWhile (\<lambda>c. c \<noteq> CHR ''/'') rest,
                     path = dropWhile (\<lambda>c. c \<noteq> CHR ''/'') rest,
                     query = []\<rparr>))"

definition sample_config :: config where
  "sample_config =
     \<lparr>max_depth = 3, max_pages = 10, user_agent = ''EmailExtractor/1.0'',
      allowed_domains = None, excluded_domains = None,
      excluded_extensions = [''.pdf'', ''.doc'', ''.docx'', ''.zip'', ''.rar'']\<rparr>"

definition sample_links :: "string \<Rightarrow> string \<Rightarrow> string list" where
  "sample_links content url =
     (if url = ''http://a.org/'' then [''http://a.org/b'', ''http://a.org/c'']
      else if url = ''http://a.org/b'' then [''http://a.org/c'']
      else if url = ''http://a.org/c'' then [''http://a.org/b'']
      else [])"

definition sample_env :: "unit env" where
  "sample_env =
     \<lparr>urlparse = sample_urlparse,
      parse_qs = (\<lambda>q. []),
      py_int = (\<lambda>s. None),
      load_robots = (\<lambda>u. None),
      crawl_single_page = (\<lambda>u d. Some ()),
      fetch_page_content = (\<lambda>u. Some ''<html>''),
      extract_links = sample_links,
      set_order = (\<lambda>xs. xs)\<rparr>"

definition fresh_crawler :: "'r crawler" where
  "fresh_crawler =
     \<lparr>visited_urls = [], queued_urls = [], robots_cache = [], all_results = [],
      fetch_log = []\<rparr>"



section \<open>The result post-processor (utils/validators.py)\<close>

subsection \<open>Deduplication\<close>



text \<open>The loop of \<open>deduplicate_contacts\<close> over the sorted contacts.\<close>

fun dedup_loop :: "pydict list \<Rightarrow> pyval list \<Rightarrow> pydict list \<Rightarrow> pydict list" where
  "dedup_loop [] seen_emails unique_contacts = unique_contacts"
| "dedup_loop (contact # rest) seen_emails unique_contacts =
     (let email = dict_get contact ''email'' PNone
      in if truthy email \<and> email \<notin> set seen_emails
         then dedup_loop rest (set_add email seen_emails) (unique_contacts @ [contact])
         else dedup_loop rest seen_emails unique_contacts)"


text \<open>The two fields that deduplication reads.\<close>

definition email_of :: "pydict \<Rightarrow> pyval" where
  "email_of c = dict_get c ''email'' PNone"



section \<open>Properties of URL admission\<close>

text \<open>
  C4. Domain confinement: a URL whose host differs from the base domain is never admitted,
  whatever the allow and deny lists, the excluded extensions, the robots policy and the
  query parameters are.
\<close>

theorem should_crawl_url_domain_confinement:
  assumes "urlparse e l = Some p" and "netloc p \<noteq> d"
  shows "\<not> fst (should_crawl_url e cfg st l d depth)"
  using assms by (simp add: should_crawl_url_def)

theorem should_crawl_url_domain_confinement_witness:
  "urlparse sample_env ''http://b.org/x'' = Some \<lparr>netloc = ''b.org'', path = ''/x'', query = []\<rparr>
   \<and> ''b.org'' \<noteq> ''a.org''
   \<and> \<not> fst (should_crawl_url sample_env sample_config fresh_crawler ''http://b.org/x'' ''a.org'' 1)"
proof -
  have p: "urlparse sample_env ''http://b.org/x''
             = Some \<lparr>netloc = ''b.org'', path = ''/x'', query = []\<rparr>"
    by (simp add: sample_env_def sample_urlparse_def)
  have n: "netloc \<lparr>netloc = ''b.org'', path = ''/x'', query = []\<rparr> \<noteq> ''a.org''"
    by simp
  from should_crawl_url_domain_confinement [OF p n] p show ?thesis
    by simp
qed




section \<open>Properties of the wave loop\<close>

subsection \<open>What each loop changes\<close>

lemma set_add_set: "set (set_add x xs) = insert x (set xs)"
  by (auto simp: set_add_def)












text \<open>
  C3. On a site whose start page links to two pages that link to each other, the page
  \<open>/c\<close> is discovered while \<open>/b\<close> is processed, in the same wave that downloads \<open>/c\<close>
  itself. It is queued again and downloaded a second time in the next wave; with a page
  budget of three the crawl ends with \<open>/c\<close> both visited and queued.
\<close>

theorem crawl_website_same_wave_refetch:
  "fetch_log (final_state (crawl_website sample_env sample_config fresh_crawler ''http://a.org/''))
     = [Crawl ''http://a.org/'' 0, Links ''http://a.org/'' 0,
        Crawl ''http://a.org/b'' 1, Crawl ''http://a.org/c'' 1,
        Links ''http://a.org/b'' 1, Links ''http://a.org/c'' 1,
        Crawl ''http://a.org/c'' 2]
   \<and> visited_urls (final_state (crawl_website sample_env (sample_config\<lparr>max_pages := 3\<rparr>)
                       fresh_crawler ''http://a.org/''))
       = [''http://a.org/'', ''http://a.org/b'', ''http://a.org/c'']
   \<and> queued_urls (final_state (crawl_website sample_env (sample_config\<lparr>max_pages := 3\<rparr>)
                      fresh_crawler ''http://a.org/''))
       = [''http://a.org/c'']"
  by code_simp

section \<open>Properties of deduplication\<close>

lemma dedup_loop_Cons:
  "dedup_loop (c # cs) seen unique =
     (if truthy (email_of c) \<and> email_of c \<notin> set seen
      then dedup_loop cs (set_add (email_of c) seen) (unique @ [c])
      else dedup_loop cs seen unique)"
  by (simp add: email_of_def Let_def)




lemma dedup_loop_distinct:
  "distinct (map email_of unique) \<Longrightarrow> email_of ` set unique \<subseteq> set seen \<Longrightarrow>
     distinct (map email_of (dedup_loop cs seen unique))"
proof (induction cs arbitrary: seen unique)
  case Nil
  then show ?case by simp
next
  case (Cons c cs)
  show ?case
  proof (cases "truthy (email_of c) \<and> email_of c \<notin> set seen")
    case True
    have step: "dedup_loop (c # cs) seen unique
                  = dedup_loop cs (set_add (email_of c) seen) (unique @ [c])"
      using True by (simp add: dedup_loop_Cons del: dedup_loop.simps)
    have d: "distinct (map email_of (unique @ [c]))"
      using Cons.prems True by auto
    have sub: "email_of ` set (unique @ [c]) \<subseteq> set (set_add (email_of c) seen)"
      using Cons.prems by (auto simp: set_add_def)
    show ?thesis
      unfolding step by (rule Cons.IH [OF d sub])
  next
    case False
    have "dedup_loop (c # cs) seen unique = dedup_loop cs seen unique"
      unfolding dedup_loop_Cons by (simp only: False if_False)
    then show ?thesis using Cons.IH [OF Cons.prems] by simp
  qed
qed








section \<open>Properties of the email validity gates\<close>

subsection \<open>Splitting and searching\<close>

lemma py_split_subset: "w \<in> set (py_split sep s) \<Longrightarrow> set w \<subseteq> set s"
proof (induction s arbitrary: w)
  case Nil
  then show ?case by simp
next
  case (Cons c cs)
  show ?case
  proof (cases "py_split sep cs")
    case Nil
    with Cons.prems show ?thesis by (auto split: if_splits)
  next
    case (Cons v vs)
    have "set v \<subseteq> set cs" "\<And>u. u \<in> set vs \<Longrightarrow> set u \<subseteq> set cs"
      using Cons.IH Cons by auto
    with Cons.prems Cons show ?thesis by (auto split: if_splits)
  qed
qed

lemma search_from_finds:
  "bt r (rev pre @ b, post) \<noteq> [] \<Longrightarrow> search_from r b (pre @ post) \<noteq> None"
proof (induction pre arbitrary: b)
  case Nil
  then show ?case by (cases post) (auto split: list.splits)
next
  case (Cons c pre)
  then show ?case by (auto split: list.splits)
qed

lemma search_from_found:
  "search_from r b a \<noteq> None \<Longrightarrow> \<exists>pre post. a = pre @ post \<and> bt r (rev pre @ b, post) \<noteq> []"
proof (induction a arbitrary: b)
  case Nil
  then show ?case by (auto split: list.splits)
next
  case (Cons c a)
  show ?case
  proof (cases "bt r (b, c # a)")
    case Nil
    with Cons.prems have "search_from r (c # b) a \<noteq> None" by simp
    from Cons.IH [OF this] obtain pre post where
      "a = pre @ post" "bt r (rev pre @ c # b, post) \<noteq> []" by blast
    then have "c # a = (c # pre) @ post \<and> bt r (rev (c # pre) @ b, post) \<noteq> []" by simp
    then show ?thesis by blast
  next
    case (Cons m ms)
    then have "c # a = [] @ (c # a) \<and> bt r (rev [] @ b, c # a) \<noteq> []" by simp
    then show ?thesis by blast
  qed
qed

lemma re_found_iff:
  "re_found r s \<longleftrightarrow> (\<exists>pre post. s = pre @ post \<and> bt r (rev pre, post) \<noteq> [])"
  unfolding re_found_def re_search_def
  using search_from_finds [of r _ "[]"] search_from_found [of r "[]" s] by auto

subsection \<open>The basic gate\<close>

text \<open>The pattern \<open>^\.|\.\<close> is found in every string that contains a dot.\<close>

lemma dot_anywhere_found:
  assumes "CHR ''.'' \<in> set s"
  shows "re_found (Alt (Seq Bol (Cls dot)) (Cls dot)) s"
proof -
  from assms obtain pre post where "s = pre @ CHR ''.'' # post"
    by (auto simp: in_set_conv_decomp)
  then have "s = pre @ (CHR ''.'' # post)
      \<and> bt (Alt (Seq Bol (Cls dot)) (Cls dot)) (rev pre, CHR ''.'' # post) \<noteq> []"
    by (simp add: dot_def)
  then show ?thesis unfolding re_found_iff by blast
qed

lemma is_valid_email_format_never: "\<not> is_valid_email_format email"
proof
  assume v: "is_valid_email_format email"
  then obtain local domain where
    sp: "py_split CHR ''@'' email = [local, domain]" and d: "CHR ''.'' \<in> set domain"
    and np: "\<not> (\<exists>pattern \<in> set basic_invalid_patterns. re_found pattern email)"
    by (auto simp: is_valid_email_format_def split: if_splits list.splits)
  from py_split_subset [of domain "CHR ''@''" email] sp d have "CHR ''.'' \<in> set email"
    by auto
  from dot_anywhere_found [OF this] np show False
    by (simp add: basic_invalid_patterns_def)
qed

text \<open>
  C10. The basic validator \<open>_is_valid_email_format\<close> rejects every string: it demands a dot
  in the domain part, and its invalid pattern \<open>^\.|\.\<close> is found in every string with a
  dot. Hence every strategy that admits candidates through this validator alone returns
  the empty list, whatever the page is.
\<close>

theorem basic_email_gate_rejects_everything:
  "\<not> is_valid_email_format email
   \<and> extract_standard_emails clean_html content = []
   \<and> extract_mailto_links unquote mailto_links source_url = []
   \<and> extract_css_hidden_emails clean_html hidden_texts = []
   \<and> extract_obfuscated_emails clean_html content hidden_texts = []
   \<and> extract_js_emails scripts = []"
proof -
  have std: "extract_standard_emails clean_html c = []" for c
    by (auto simp: extract_standard_emails_def Let_def is_valid_email_format_never)
  have css: "extract_css_hidden_emails clean_html hidden_texts = []"
    by (auto simp: extract_css_hidden_emails_def std)
  show ?thesis
    by (auto simp: std css extract_mailto_links_def extract_obfuscated_emails_def
          extract_js_emails_def Let_def is_valid_email_format_never)
qed

end
